theory Spec2Isabelle
  imports Complex_Main
begin

section \<open>The training orchestration of core/solver.py\<close>

text \<open>
  The embedding follows \<^verbatim>\<open>src/core/solver.py\<close>. Tensor elements are real numbers
  (rounding, infinities and NaN of the device arithmetic are outside the model), a tensor
  is the flat list of its elements together with what autograd keeps of it: the
  \<^verbatim>\<open>requires_grad\<close> flag and, as \<open>grad_fn\<close>, the forward passes recorded in
  its graph (those a backward pass from the tensor runs through, an operation's operands
  in order). Elementwise operations act on tensors of the same shape. The network
  architectures (core/model.py) are not part of the file: a network is its forward
  function, taken as a parameter.
\<close>

subsection \<open>Errors, tensors and scalar losses\<close>

datatype error =
    AssertionError
  | TypeError
  | ValueError
  | ZeroDivisionError
  | UnboundLocalError
  | AttributeError
  | LoadError

datatype role = Generator | Discriminator | Mapping_network | Style_encoder | Fan

record tensor =
  vals :: "real list"
  requires_grad :: bool
  grad_fn :: "role list"

text \<open>A zero-dimensional tensor (a loss): \<open>item\<close> is what \<^verbatim>\<open>.item()\<close> reads.\<close>

record loss_t =
  item :: real
  tracked :: bool
  grad_graph :: "role list"

definition requires_grad_inplace :: "tensor \<Rightarrow> tensor" where
  "requires_grad_inplace t = t\<lparr>requires_grad := True\<rparr>"

definition detach :: "tensor \<Rightarrow> tensor" where
  "detach t = t\<lparr>requires_grad := False, grad_fn := []\<rparr>"

definition t_sub :: "tensor \<Rightarrow> tensor \<Rightarrow> tensor" where
  "t_sub a b =
     \<lparr>vals = map2 (\<lambda>x y. x - y) (vals a) (vals b),
      requires_grad = (requires_grad a \<or> requires_grad b),
      grad_fn = grad_fn a @ grad_fn b\<rparr>"

definition t_abs :: "tensor \<Rightarrow> tensor" where
  "t_abs a = \<lparr>vals = map abs (vals a), requires_grad = requires_grad a, grad_fn = grad_fn a\<rparr>"

definition mean_of :: "real list \<Rightarrow> real" where
  "mean_of xs = sum_list xs / real (length xs)"

definition t_mean :: "tensor \<Rightarrow> loss_t" where
  "t_mean a = \<lparr>item = mean_of (vals a), tracked = requires_grad a, grad_graph = grad_fn a\<rparr>"

definition full_like :: "tensor \<Rightarrow> real \<Rightarrow> tensor" where
  "full_like t v =
     \<lparr>vals = replicate (length (vals t)) v, requires_grad = False, grad_fn = []\<rparr>"

text \<open>
  \<^verbatim>\<open>F.binary_cross_entropy_with_logits\<close> with its default mean reduction: the
  logistic cross-entropy of raw logits against the targets.
\<close>

definition binary_cross_entropy_with_logits :: "tensor \<Rightarrow> tensor \<Rightarrow> loss_t" where
  "binary_cross_entropy_with_logits logits targets =
     \<lparr>item = mean_of (map2 (\<lambda>x t. max x 0 - x * t + ln (1 + exp (- \<bar>x\<bar>)))
                        (vals logits) (vals targets)),
      tracked = (requires_grad logits \<or> requires_grad targets),
      grad_graph = grad_fn logits @ grad_fn targets\<rparr>"

text \<open>Arithmetic of the total loss: a loss plus a loss, a number times a loss.\<close>

definition l_add :: "loss_t \<Rightarrow> loss_t \<Rightarrow> loss_t" where
  "l_add a b =
     \<lparr>item = item a + item b, tracked = (tracked a \<or> tracked b),
      grad_graph = grad_graph a @ grad_graph b\<rparr>"

definition l_sub :: "loss_t \<Rightarrow> loss_t \<Rightarrow> loss_t" where
  "l_sub a b =
     \<lparr>item = item a - item b, tracked = (tracked a \<or> tracked b),
      grad_graph = grad_graph a @ grad_graph b\<rparr>"

definition l_scale :: "real \<Rightarrow> loss_t \<Rightarrow> loss_t" where
  "l_scale w a = \<lparr>item = w * item a, tracked = tracked a, grad_graph = grad_graph a\<rparr>"

definition l_add_num :: "loss_t \<Rightarrow> real \<Rightarrow> loss_t" where
  "l_add_num a r = \<lparr>item = item a + r, tracked = tracked a, grad_graph = grad_graph a\<rparr>"

subsection \<open>The network ensemble and the configuration\<close>

text \<open>
  The forward functions of the ensemble \<^verbatim>\<open>nets\<close>: images, latent vectors and style
  codes are element lists, labels are lists of class indices, masks are the heat maps of
  the frozen auxiliary network (absent when \<^verbatim>\<open>w_hpf\<close> is not positive).
\<close>

record networks =
  generator :: "real list \<Rightarrow> real list \<Rightarrow> real list option \<Rightarrow> real list"
  discriminator :: "real list \<Rightarrow> nat list \<Rightarrow> real list"
  mapping_network :: "real list \<Rightarrow> nat list \<Rightarrow> real list"
  style_encoder :: "real list \<Rightarrow> nat list \<Rightarrow> real list"
  fan_get_heatmap :: "real list \<Rightarrow> real list"

record args =
  mode :: string
  checkpoint_dir :: string
  w_hpf :: real
  lambda_reg :: real
  lambda_sty :: real
  lambda_ds :: real
  lambda_cyc :: real
  ds_epoch :: real
  ema :: bool
  num_epochs :: int
  resume_epoch :: int
  wandb_log :: int
  save_every :: int
  eval_every :: int

text \<open>
  A forward pass appends the network's role to the list of calls made so far; its output
  requires gradients exactly when gradient tracking is on (the parameters of the four
  trainable networks require gradients), and its graph then holds the pass itself
  followed by the graphs of its tensor arguments. Under \<^verbatim>\<open>torch.no_grad()\<close> nothing
  is recorded. The heat maps of the frozen auxiliary network carry no gradient.
\<close>

definition call_generator ::
  "networks \<Rightarrow> bool \<Rightarrow> tensor \<Rightarrow> tensor \<Rightarrow> real list option \<Rightarrow> role list \<Rightarrow> tensor \<times> role list" where
  "call_generator nets grad x s masks calls =
     (\<lparr>vals = generator nets (vals x) (vals s) masks, requires_grad = grad,
       grad_fn = (if grad then Generator # grad_fn x @ grad_fn s else [])\<rparr>,
      calls @ [Generator])"

definition call_discriminator ::
  "networks \<Rightarrow> bool \<Rightarrow> tensor \<Rightarrow> nat list \<Rightarrow> role list \<Rightarrow> tensor \<times> role list" where
  "call_discriminator nets grad x y calls =
     (\<lparr>vals = discriminator nets (vals x) y, requires_grad = grad,
       grad_fn = (if grad then Discriminator # grad_fn x else [])\<rparr>,
      calls @ [Discriminator])"

definition call_mapping_network ::
  "networks \<Rightarrow> bool \<Rightarrow> tensor \<Rightarrow> nat list \<Rightarrow> role list \<Rightarrow> tensor \<times> role list" where
  "call_mapping_network nets grad z y calls =
     (\<lparr>vals = mapping_network nets (vals z) y, requires_grad = grad,
       grad_fn = (if grad then Mapping_network # grad_fn z else [])\<rparr>,
      calls @ [Mapping_network])"

definition call_style_encoder ::
  "networks \<Rightarrow> bool \<Rightarrow> tensor \<Rightarrow> nat list \<Rightarrow> role list \<Rightarrow> tensor \<times> role list" where
  "call_style_encoder nets grad x y calls =
     (\<lparr>vals = style_encoder nets (vals x) y, requires_grad = grad,
       grad_fn = (if grad then Style_encoder # grad_fn x else [])\<rparr>,
      calls @ [Style_encoder])"

definition call_get_heatmap ::
  "networks \<Rightarrow> tensor \<Rightarrow> role list \<Rightarrow> real list \<times> role list" where
  "call_get_heatmap nets x calls = (fan_get_heatmap nets (vals x), calls @ [Fan])"

subsection \<open>The loss functions\<close>

text \<open>\<^verbatim>\<open>adv_loss\<close> (lines 286-290).\<close>

definition adv_loss :: "tensor \<Rightarrow> int \<Rightarrow> error + loss_t" where
  "adv_loss logits target =
     (if target \<notin> set [1, 0] then Inl AssertionError
      else
        let targets = full_like logits (real_of_int target)
        in Inr (binary_cross_entropy_with_logits logits targets))"

text \<open>
  \<^verbatim>\<open>compute_d_loss\<close> (lines 202-225). The style source arguments default to
  \<^verbatim>\<open>None\<close>. The breakdown is the \<^verbatim>\<open>Munch\<close> it returns, as the list of its items.
  The second component of the result is the list of forward passes made.
\<close>

definition compute_d_loss ::
  "networks \<Rightarrow> args \<Rightarrow> tensor \<Rightarrow> nat list \<Rightarrow> nat list \<Rightarrow> tensor option \<Rightarrow> tensor option \<Rightarrow>
   real list option \<Rightarrow> role list \<Rightarrow> (error + loss_t \<times> (string \<times> real) list) \<times> role list" where
  "compute_d_loss nets args x_real y_org y_trg z_trg x_ref masks calls0 =
     (if (z_trg = None) = (x_ref = None) then (Inl AssertionError, calls0)
      else
        let x_real = requires_grad_inplace x_real;
            (out, calls1) = call_discriminator nets True x_real y_org calls0
        in case adv_loss out 1 of
             Inl e \<Rightarrow> (Inl e, calls1)
           | Inr loss_real \<Rightarrow>
               let loss_reg = 0;
                   (s_trg, calls2) =
                     (case z_trg of
                        Some z \<Rightarrow> call_mapping_network nets False z y_trg calls1
                      | None \<Rightarrow> call_style_encoder nets False (the x_ref) y_trg calls1);
                   (x_fake, calls3) = call_generator nets False x_real s_trg masks calls2;
                   (out, calls4) = call_discriminator nets True x_fake y_trg calls3
               in case adv_loss out 0 of
                    Inl e \<Rightarrow> (Inl e, calls4)
                  | Inr loss_fake \<Rightarrow>
                      let loss = l_add_num (l_add loss_real loss_fake) (lambda_reg args * loss_reg)
                      in (Inr (loss, [(''real'', item loss_real),
                                      (''fake'', item loss_fake),
                                      (''reg'', 0)]),
                          calls4))"

text \<open>
  Unpacking a two-element target, \<^verbatim>\<open>a, b = xs\<close>: \<^verbatim>\<open>None\<close> is not iterable
  (TypeError), a sequence of another length does not fit (ValueError).
\<close>

fun unpack2 :: "'a list option \<Rightarrow> error + 'a \<times> 'a" where
  "unpack2 None = Inl TypeError"
| "unpack2 (Some [a, b]) = Inr (a, b)"
| "unpack2 (Some _) = Inl ValueError"

text \<open>
  \<^verbatim>\<open>compute_g_loss\<close> (lines 229-278). Both \<^verbatim>\<open>z_trgs\<close> and \<^verbatim>\<open>x_refs\<close> default
  to \<^verbatim>\<open>None\<close> and both are unpacked (lines 235-236). The body (lines 235-274) binds
  the local variables below; the \<^verbatim>\<open>return\<close> (lines 275-278) builds the result from them.
\<close>

record g_vars =
  v_s_trg :: tensor
  v_x_fake :: tensor
  v_loss_adv :: loss_t
  v_s_pred :: tensor
  v_s_ref :: tensor
  v_loss_sty :: loss_t
  v_s_trg2 :: tensor
  v_x_fake2 :: tensor
  v_loss_ds :: loss_t
  v_masks :: "real list option"
  v_s_org :: tensor
  v_x_rec :: tensor
  v_loss_cyc :: loss_t
  v_loss :: loss_t

definition compute_g_loss_body ::
  "networks \<Rightarrow> args \<Rightarrow> tensor \<Rightarrow> nat list \<Rightarrow> nat list \<Rightarrow> tensor list option \<Rightarrow>
   tensor list option \<Rightarrow> real list option \<Rightarrow> role list \<Rightarrow> (error + g_vars) \<times> role list" where
  "compute_g_loss_body nets args x_real y_org y_trg z_trgs x_refs masks calls0 =
     (case unpack2 z_trgs of
        Inl e \<Rightarrow> (Inl e, calls0)
      | Inr (z_trg, z_trg2) \<Rightarrow>
     (case unpack2 x_refs of
        Inl e \<Rightarrow> (Inl e, calls0)
      | Inr (x_ref, x_ref2) \<Rightarrow>
          let (s_trg, calls1) = call_mapping_network nets True z_trg y_trg calls0;
              (x_fake, calls2) = call_generator nets True x_real s_trg masks calls1;
              (out, calls3) = call_discriminator nets True x_fake y_trg calls2
          in case adv_loss out 1 of
               Inl e \<Rightarrow> (Inl e, calls3)
             | Inr loss_adv \<Rightarrow>
                 let (s_pred, calls4) = call_style_encoder nets True x_fake y_trg calls3;
                     (s_ref, calls5) = call_style_encoder nets True x_ref y_trg calls4;
                     loss_sty = t_mean (t_abs (t_sub s_pred s_ref));
                     (s_trg2, calls6) = call_mapping_network nets True z_trg2 y_trg calls5;
                     (x_fake2, calls7) = call_generator nets True x_real s_trg2 masks calls6;
                     x_fake2 = detach x_fake2;
                     loss_ds = t_mean (t_abs (t_sub x_fake x_fake2));
                     (masks, calls8) =
                       (if w_hpf args > 0
                        then (let (m, c) = call_get_heatmap nets x_fake calls7 in (Some m, c))
                        else (None, calls7));
                     (s_org, calls9) = call_style_encoder nets True x_real y_org calls8;
                     (x_rec, calls10) = call_generator nets True x_fake s_org masks calls9;
                     loss_cyc = t_mean (t_abs (t_sub x_rec x_real));
                     loss = l_add (l_sub (l_add loss_adv (l_scale (lambda_sty args) loss_sty))
                                         (l_scale (lambda_ds args) loss_ds))
                                  (l_scale (lambda_cyc args) loss_cyc)
                 in (Inr \<lparr>v_s_trg = s_trg, v_x_fake = x_fake, v_loss_adv = loss_adv,
                          v_s_pred = s_pred, v_s_ref = s_ref, v_loss_sty = loss_sty,
                          v_s_trg2 = s_trg2, v_x_fake2 = x_fake2, v_loss_ds = loss_ds,
                          v_masks = masks, v_s_org = s_org, v_x_rec = x_rec,
                          v_loss_cyc = loss_cyc, v_loss = loss\<rparr>,
                     calls10)))"

definition compute_g_loss ::
  "networks \<Rightarrow> args \<Rightarrow> tensor \<Rightarrow> nat list \<Rightarrow> nat list \<Rightarrow> tensor list option \<Rightarrow>
   tensor list option \<Rightarrow> real list option \<Rightarrow> role list \<Rightarrow>
   (error + loss_t \<times> (string \<times> real) list) \<times> role list" where
  "compute_g_loss nets args x_real y_org y_trg z_trgs x_refs masks calls0 =
     (case compute_g_loss_body nets args x_real y_org y_trg z_trgs x_refs masks calls0 of
        (Inl e, calls) \<Rightarrow> (Inl e, calls)
      | (Inr v, calls) \<Rightarrow>
          (Inr (v_loss v, [(''adv'', item (v_loss_adv v)),
                           (''sty'', item (v_loss_sty v)),
                           (''ds'', item (v_loss_ds v)),
                           (''cyc'', item (v_loss_cyc v))]),
           calls))"

subsection \<open>Module objects, their parameters, and the EMA update\<close>

text \<open>
  A module or optimizer object is known by its identity; the store gives the tensors it
  holds (a module's \<^verbatim>\<open>parameters()\<close> in order, an optimizer's state), each as its
  element list. Modules come from \<^verbatim>\<open>build_model\<close>; \<^verbatim>\<open>Solver.__init__\<close> creates one
  optimizer per network name.
\<close>

datatype obj = Module nat | Optimizer string

type_synonym store = "obj \<Rightarrow> real list list"

text \<open>\<^verbatim>\<open>torch.lerp(input, end, weight)\<close>: \<open>input + weight * (end - input)\<close>, elementwise.\<close>

definition lerp :: "real list \<Rightarrow> real list \<Rightarrow> real \<Rightarrow> real list" where
  "lerp start finish weight = map2 (\<lambda>s e. s + weight * (e - s)) start finish"

text \<open>
  The loop of \<^verbatim>\<open>moving_average\<close> (lines 282-283) over the zipped parameter lists:
  each shadow parameter that has a live partner gets new data, the rest are not visited.
\<close>

fun moving_average_params :: "real list list \<Rightarrow> real list list \<Rightarrow> real \<Rightarrow> real list list" where
  "moving_average_params (param # ps) (param_test # pts) beta =
     lerp param param_test beta # moving_average_params ps pts beta"
| "moving_average_params [] pts beta = pts"
| "moving_average_params ps [] beta = []"

definition moving_average :: "store \<Rightarrow> obj \<Rightarrow> obj \<Rightarrow> real \<Rightarrow> store" where
  "moving_average h model model_test beta =
     h(model_test := moving_average_params (h model) (h model_test) beta)"

subsection \<open>Checkpoints\<close>

text \<open>
  Modelled from the spec: \<^verbatim>\<open>CheckpointIO\<close> (core/checkpoint.py is not among the
  sources). It is registered with a path template holding a step placeholder and a
  mapping from names to objects; \<^verbatim>\<open>save(step)\<close> serializes all registered
  collections keyed by step, \<^verbatim>\<open>load(step)\<close> restores them and fails with a load
  error if the step file is absent or does not hold a registered name.
\<close>

record checkpoint_io =
  fname_dir :: string
  fname_suffix :: string
  module_dict :: "(string \<times> obj) list"

type_synonym ckpt = "(string \<times> real list list) list"

record disk =
  files :: "string \<Rightarrow> ckpt option"
  written :: "string list"
  opened :: "string list"

fun digits :: "nat \<Rightarrow> string" where
  "digits n =
     (if n < 10 then [''0123456789'' ! n]
      else digits (n div 10) @ [''0123456789'' ! (n mod 10)])"

declare digits.simps [simp del]

text \<open>The format \<^verbatim>\<open>{:06d}\<close>: decimal, zero-padded to six characters, sign first.\<close>

definition format_06d :: "int \<Rightarrow> string" where
  "format_06d step =
     (let ds = digits (nat \<bar>step\<bar>)
      in if step < 0 then CHR ''-'' # replicate (5 - length ds) CHR ''0'' @ ds
         else replicate (6 - length ds) CHR ''0'' @ ds)"

text \<open>\<^verbatim>\<open>os.path.join\<close> of a directory and a relative file name.\<close>

definition ospj :: "string \<Rightarrow> string \<Rightarrow> string" where
  "ospj dir name =
     (if dir = [] then name
      else if last dir = CHR ''/'' then dir @ name
      else dir @ ''/'' @ name)"

text \<open>
  The template is \<^verbatim>\<open>ospj(dir, '{:06d}' + suffix)\<close>; \<^verbatim>\<open>fname_template.format(step)\<close>
  fills the placeholder.
\<close>

definition ckpt_fname :: "checkpoint_io \<Rightarrow> int \<Rightarrow> string" where
  "ckpt_fname io step = ospj (fname_dir io) (format_06d step @ fname_suffix io)"

definition ckpt_save :: "checkpoint_io \<Rightarrow> int \<Rightarrow> store \<Rightarrow> disk \<Rightarrow> disk" where
  "ckpt_save io step h d =
     (let fname = ckpt_fname io step;
          outdict = map (\<lambda>(name, mdl). (name, h mdl)) (module_dict io)
      in d\<lparr>files := (files d)(fname := Some outdict), written := written d @ [fname]\<rparr>)"

fun load_state_dicts :: "(string \<times> obj) list \<Rightarrow> ckpt \<Rightarrow> store \<Rightarrow> error + store" where
  "load_state_dicts [] loaded h = Inr h"
| "load_state_dicts ((name, mdl) # rest) loaded h =
     (case map_of loaded name of
        None \<Rightarrow> Inl LoadError
      | Some state \<Rightarrow> load_state_dicts rest loaded (h(mdl := state)))"

definition ckpt_load :: "checkpoint_io \<Rightarrow> int \<Rightarrow> store \<times> disk \<Rightarrow> error + store \<times> disk" where
  "ckpt_load io step sd =
     (let (h, d) = sd;
          fname = ckpt_fname io step
      in case files d fname of
           None \<Rightarrow> Inl LoadError
         | Some loaded \<Rightarrow>
             (case load_state_dicts (module_dict io) loaded h of
                Inl e \<Rightarrow> Inl e
              | Inr h' \<Rightarrow> Inr (h', d\<lparr>opened := opened d @ [fname]\<rparr>)))"

subsection \<open>The solver\<close>

text \<open>
  The fields \<^verbatim>\<open>self.nets\<close>, \<^verbatim>\<open>self.nets_ema\<close> and \<^verbatim>\<open>self.optims\<close> are
  \<^verbatim>\<open>Munch\<close> dictionaries from names to objects, in insertion order;
  \<^verbatim>\<open>self.optims\<close> exists in train mode only.
\<close>

record solver =
  s_args :: args
  s_nets :: "(string \<times> obj) list"
  s_nets_ema :: "(string \<times> obj) list"
  s_optims :: "(string \<times> obj) list option"
  s_ckptios :: "checkpoint_io list"

text \<open>
  \<^verbatim>\<open>Solver.__init__\<close> (lines 32-72), given what \<^verbatim>\<open>build_model(args)\<close> returned. The
  initialisation of the parameter values and the move to the device (lines 74-80) act on
  the values only and are left to the caller's store. An optimizer is known by the name
  of the network it was created for; its hyperparameters play no part here.
\<close>

definition solver_init :: "args \<Rightarrow> (string \<times> obj) list \<times> (string \<times> obj) list \<Rightarrow> solver" where
  "solver_init args built =
     (let (nets, nets_ema) = built
      in if mode args = ''train'' then
           let optims = map (\<lambda>net. (net, Optimizer net))
                            (filter (\<lambda>net. net \<noteq> ''fan'') (map fst nets))
           in \<lparr>s_args = args, s_nets = nets, s_nets_ema = nets_ema, s_optims = Some optims,
               s_ckptios =
                 [\<lparr>fname_dir = checkpoint_dir args, fname_suffix = ''_nets.ckpt'',
                   module_dict = nets\<rparr>,
                  \<lparr>fname_dir = checkpoint_dir args, fname_suffix = ''_optims.ckpt'',
                   module_dict = optims\<rparr>]\<rparr>
         else
           \<lparr>s_args = args, s_nets = nets, s_nets_ema = nets_ema, s_optims = None,
            s_ckptios =
              [\<lparr>fname_dir = checkpoint_dir args, fname_suffix = ''_nets_ema.ckpt'',
                module_dict = nets_ema\<rparr>]\<rparr>)"

text \<open>\<^verbatim>\<open>_save_checkpoint\<close> (lines 82-84) and \<^verbatim>\<open>_load_checkpoint\<close> (lines 86-88).\<close>

definition save_checkpoint :: "solver \<Rightarrow> int \<Rightarrow> store \<Rightarrow> disk \<Rightarrow> disk" where
  "save_checkpoint s step h d = fold (\<lambda>ckptio d. ckpt_save ckptio step h d) (s_ckptios s) d"

fun load_all :: "checkpoint_io list \<Rightarrow> int \<Rightarrow> store \<times> disk \<Rightarrow> error + store \<times> disk" where
  "load_all [] step sd = Inr sd"
| "load_all (ckptio # rest) step sd =
     (case ckpt_load ckptio step sd of
        Inl e \<Rightarrow> Inl e
      | Inr sd' \<Rightarrow> load_all rest step sd')"

definition load_checkpoint :: "solver \<Rightarrow> int \<Rightarrow> store \<times> disk \<Rightarrow> error + store \<times> disk" where
  "load_checkpoint s step sd = load_all (s_ckptios s) step sd"

text \<open>
  \<^verbatim>\<open>Solver.sample\<close> (lines 174-190). The two rendering functions of core/utils.py are
  outside the sources; the result records, for each of them, the ensemble it is handed.
  Creating the result directory and fetching the two test batches (lines 178, 181-182)
  touch neither the store nor the checkpoints and are left out.
\<close>

definition sample ::
  "solver \<Rightarrow> store \<times> disk \<Rightarrow> error + (store \<times> disk) \<times> (string \<times> (string \<times> obj) list) list" where
  "sample s sd =
     (let args = s_args s;
          nets_ema = s_nets s
      in case load_checkpoint s (resume_epoch args) sd of
           Inl e \<Rightarrow> Inl e
         | Inr sd' \<Rightarrow>
             Inr (sd', [(''translate_using_reference'', nets_ema), (''video_ref'', nets_ema)]))"

subsection \<open>The training loop\<close>

text \<open>Attribute access on a \<^verbatim>\<open>Munch\<close>, and \<^verbatim>\<open>d[k] = v\<close> on a dictionary.\<close>

definition attr :: "(string \<times> 'a) list \<Rightarrow> string \<Rightarrow> error + 'a" where
  "attr d name = (case map_of d name of None \<Rightarrow> Inl AttributeError | Some v \<Rightarrow> Inr v)"

fun dict_set :: "('k \<times> 'v) list \<Rightarrow> 'k \<Rightarrow> 'v \<Rightarrow> ('k \<times> 'v) list" where
  "dict_set [] k v = [(k, v)]"
| "dict_set ((k', v') # d) k v =
     (if k' = k then (k', v) # d else (k', v') # dict_set d k v)"

text \<open>Python's \<^verbatim>\<open>a % b\<close> on integers.\<close>

definition py_mod :: "int \<Rightarrow> int \<Rightarrow> error + int" where
  "py_mod a b = (if b = 0 then Inl ZeroDivisionError else Inr (a mod b))"

text \<open>A \<^verbatim>\<open>for\<close> loop whose body may raise.\<close>

fun for_each :: "('i \<Rightarrow> 's \<Rightarrow> error + 's) \<Rightarrow> 'i list \<Rightarrow> 's \<Rightarrow> error + 's" where
  "for_each body [] st = Inr st"
| "for_each body (i # rest) st =
     (case body i st of
        Inl e \<Rightarrow> Inl e
      | Inr st' \<Rightarrow> for_each body rest st')"

text \<open>
  What \<^verbatim>\<open>Solver.train\<close> changes: the configuration (its field \<^verbatim>\<open>lambda_ds\<close>), the
  parameters in the store, the local variable \<^verbatim>\<open>all_losses\<close> (unbound until its first
  assignment), what the progress bar has shown (the dictionary handed to
  \<^verbatim>\<open>set_postfix\<close> at each batch, before its values are formatted), the tracker's log,
  the disk, and the calls of the evaluator.
\<close>

record train_state =
  t_args :: args
  t_store :: store
  all_losses :: "(string \<times> real) list option"
  pbar_postfix :: "(string \<times> real) list list"
  wandb_logged :: "((string \<times> real) list \<times> int) list"
  t_disk :: disk
  metrics_calls :: "(int \<times> string) list"

text \<open>
  One fetched batch, and what the data loader and torch contribute to a training step:
  the batch of an iteration, the forward functions of the live modules at given
  parameter values, and a backward pass with the scaled step of the named optimizers.
\<close>

record batch =
  b_x_src :: tensor
  b_y_src :: "nat list"
  b_x_ref :: tensor
  b_x_ref2 :: tensor
  b_y_ref :: "nat list"
  b_z_trg :: tensor
  b_z_trg2 :: tensor

record torch_env =
  fetch :: "int \<Rightarrow> nat \<Rightarrow> batch"
  forward_of :: "store \<Rightarrow> networks"
  backward_step :: "string list \<Rightarrow> loss_t \<Rightarrow> store \<Rightarrow> store"

text \<open>
  Lines 120-142: fetch, discriminator phase, generator phase. The result is the two
  breakdowns and the store after both optimizer steps. \<^verbatim>\<open>compute_d_loss\<close> has set
  \<^verbatim>\<open>requires_grad\<close> on \<^verbatim>\<open>x_real\<close> in place by the time of the generator phase.
\<close>

definition train_phases ::
  "torch_env \<Rightarrow> int \<Rightarrow> nat \<Rightarrow> train_state \<Rightarrow>
   error + (string \<times> real) list \<times> (string \<times> real) list \<times> store" where
  "train_phases env epoch batch_idx st =
     (let args = t_args st;
          nets = forward_of env (t_store st);
          inputs = fetch env epoch batch_idx;
          x_real = b_x_src inputs; y_org = b_y_src inputs;
          y_trg = b_y_ref inputs;
          z_trg = b_z_trg inputs; z_trg2 = b_z_trg2 inputs;
          masks = (if w_hpf args > 0 then Some (fan_get_heatmap nets (vals x_real)) else None)
      in case fst (compute_d_loss nets args x_real y_org y_trg (Some z_trg) None masks []) of
           Inl e \<Rightarrow> Inl e
         | Inr (d_loss, d_losses_latent) \<Rightarrow>
             let x_real = requires_grad_inplace x_real;
                 h = backward_step env [''discriminator''] d_loss (t_store st);
                 nets = forward_of env h
             in case fst (compute_g_loss nets args x_real y_org y_trg
                            (Some [z_trg, z_trg2]) None masks []) of
                  Inl e \<Rightarrow> Inl e
                | Inr (g_loss, g_losses_latent) \<Rightarrow>
                    Inr (d_losses_latent, g_losses_latent,
                         backward_step env [''generator'', ''mapping_network'', ''style_encoder'']
                           g_loss h))"

text \<open>Lines 145-149: the dictionary \<^verbatim>\<open>all_losses\<close> of one batch.\<close>

definition collect_losses ::
  "(string \<times> real) list \<Rightarrow> (string \<times> real) list \<Rightarrow> real \<Rightarrow> (string \<times> real) list" where
  "collect_losses d_losses_latent g_losses_latent lam =
     (let all_losses = [];
          all_losses =
            fold (\<lambda>(loss, prefix) acc.
                    fold (\<lambda>(key, v) acc. dict_set acc (prefix @ key) v) loss acc)
                 (zip [d_losses_latent, g_losses_latent] [''D/latent_'', ''G/latent_''])
                 all_losses
      in dict_set all_losses ''G/lambda_ds'' lam)"

text \<open>Lines 155-158: one EMA update of a role, live module first.\<close>

definition ema_update :: "solver \<Rightarrow> string \<Rightarrow> store \<Rightarrow> error + store" where
  "ema_update s name h =
     (case attr (s_nets s) name of
        Inl e \<Rightarrow> Inl e
      | Inr model \<Rightarrow>
          (case attr (s_nets_ema s) name of
             Inl e \<Rightarrow> Inl e
           | Inr model_test \<Rightarrow> Inr (moving_average h model model_test (999 / 1000))))"

text \<open>Lines 159-160: the decay of \<^verbatim>\<open>args.lambda_ds\<close>.\<close>

definition decay_lambda_ds :: "real \<Rightarrow> args \<Rightarrow> error + args" where
  "decay_lambda_ds initial_lambda_ds args =
     (if lambda_ds args > 0 then
        (if ds_epoch args = 0 then Inl ZeroDivisionError
         else Inr (args\<lparr>lambda_ds := lambda_ds args - initial_lambda_ds / ds_epoch args\<rparr>))
      else Inr args)"

text \<open>
  Lines 144-160, the rest of the body of the batch loop after the two phases: collect and
  display the losses, update the EMA shadows, decay \<^verbatim>\<open>lambda_ds\<close>.
\<close>

definition batch_tail ::
  "solver \<Rightarrow> real \<Rightarrow> (string \<times> real) list \<Rightarrow> (string \<times> real) list \<Rightarrow> train_state \<Rightarrow>
   error + train_state" where
  "batch_tail s initial_lambda_ds d_losses_latent g_losses_latent st =
     (let args = t_args st;
          losses = collect_losses d_losses_latent g_losses_latent (lambda_ds args);
          st = st\<lparr>all_losses := Some losses, pbar_postfix := pbar_postfix st @ [losses]\<rparr>
      in case (if ema args then
                 for_each (\<lambda>name h. ema_update s name h)
                   [''generator'', ''mapping_network'', ''style_encoder''] (t_store st)
               else Inr (t_store st)) of
           Inl e \<Rightarrow> Inl e
         | Inr h \<Rightarrow>
             (case decay_lambda_ds initial_lambda_ds args of
                Inl e \<Rightarrow> Inl e
              | Inr args' \<Rightarrow> Inr (st\<lparr>t_store := h, t_args := args'\<rparr>)))"

text \<open>
  The body of the batch loop (lines 117-160). The two phases are a parameter
  \<open>phases\<close>, so that what is proved of the loop holds whatever they return;
  \<open>train_phases env\<close> is the one the file has.
\<close>

definition train_batch ::
  "(int \<Rightarrow> nat \<Rightarrow> train_state \<Rightarrow> error + (string \<times> real) list \<times> (string \<times> real) list \<times> store) \<Rightarrow>
   solver \<Rightarrow> real \<Rightarrow> int \<Rightarrow> nat \<Rightarrow> train_state \<Rightarrow> error + train_state" where
  "train_batch phases s initial_lambda_ds epoch batch_idx st =
     (case phases epoch batch_idx st of
        Inl e \<Rightarrow> Inl e
      | Inr (d_losses_latent, g_losses_latent, h) \<Rightarrow>
          batch_tail s initial_lambda_ds d_losses_latent g_losses_latent (st\<lparr>t_store := h\<rparr>))"

text \<open>Lines 162-169: logging, saving, evaluating at the end of an epoch.\<close>

definition epoch_end :: "solver \<Rightarrow> int \<Rightarrow> train_state \<Rightarrow> error + train_state" where
  "epoch_end s epoch st =
     (let args = t_args st
      in case py_mod epoch (wandb_log args) of
           Inl e \<Rightarrow> Inl e
         | Inr r1 \<Rightarrow>
       (case (if r1 = 0 then
                (case all_losses st of
                   None \<Rightarrow> Inl UnboundLocalError
                 | Some l \<Rightarrow> Inr (st\<lparr>wandb_logged := wandb_logged st @ [(l, epoch)]\<rparr>))
              else Inr st) of
           Inl e \<Rightarrow> Inl e
         | Inr st \<Rightarrow>
       (case py_mod epoch (save_every args) of
           Inl e \<Rightarrow> Inl e
         | Inr r2 \<Rightarrow>
       (let st = (if r2 = 0
                  then st\<lparr>t_disk := save_checkpoint s epoch (t_store st) (t_disk st)\<rparr>
                  else st)
        in case py_mod epoch (eval_every args) of
             Inl e \<Rightarrow> Inl e
           | Inr r3 \<Rightarrow>
               Inr (if r3 = 0
                    then st\<lparr>metrics_calls :=
                              metrics_calls st @ [(epoch, ''latent''), (epoch, ''reference'')]\<rparr>
                    else st)))))"

text \<open>
  One epoch (lines 114-171) and the whole of \<^verbatim>\<open>Solver.train\<close> (lines 94-171), with
  \<open>iters_per_epoch\<close> the length of the loader (line 110). The validation batch fetched
  at line 103 is not used afterwards; the progress bar is kept as the dictionaries it is
  handed. \<open>train_with\<close> is the loop for given phases, \<open>train\<close> the loop of the file.
\<close>

definition train_epoch ::
  "(int \<Rightarrow> nat \<Rightarrow> train_state \<Rightarrow> error + (string \<times> real) list \<times> (string \<times> real) list \<times> store) \<Rightarrow>
   solver \<Rightarrow> nat \<Rightarrow> real \<Rightarrow> int \<Rightarrow> train_state \<Rightarrow> error + train_state" where
  "train_epoch phases s iters_per_epoch initial_lambda_ds epoch st =
     (case for_each (train_batch phases s initial_lambda_ds epoch) [0..<iters_per_epoch] st of
        Inl e \<Rightarrow> Inl e
      | Inr st' \<Rightarrow> epoch_end s epoch st')"

definition train_with ::
  "(int \<Rightarrow> nat \<Rightarrow> train_state \<Rightarrow> error + (string \<times> real) list \<times> (string \<times> real) list \<times> store) \<Rightarrow>
   solver \<Rightarrow> nat \<Rightarrow> train_state \<Rightarrow> error + train_state" where
  "train_with phases s iters_per_epoch st =
     (let args = t_args st;
          initial_lambda_ds = lambda_ds args;
          num_epochs = num_epochs args;
          start_epoch = (if resume_epoch args > 0 then resume_epoch args else 0)
      in for_each (train_epoch phases s iters_per_epoch initial_lambda_ds)
           [start_epoch..num_epochs - 1] st)"

definition train :: "torch_env \<Rightarrow> solver \<Rightarrow> nat \<Rightarrow> train_state \<Rightarrow> error + train_state" where
  "train env s iters_per_epoch st = train_with (train_phases env) s iters_per_epoch st"

subsection \<open>Observations on a run, and sample inputs\<close>



text \<open>Concrete inputs, for the evaluations below.\<close>

definition tn :: "real list \<Rightarrow> tensor" where
  "tn xs = \<lparr>vals = xs, requires_grad = False, grad_fn = []\<rparr>"

definition nets0 :: networks where
  "nets0 = \<lparr>generator = (\<lambda>x s m. map (\<lambda>a. a + hd s) x),
            discriminator = (\<lambda>x y. [0]),
            mapping_network = (\<lambda>z y. z),
            style_encoder = (\<lambda>x y. [hd x]),
            fan_get_heatmap = (\<lambda>x. x)\<rparr>"

definition args0 :: args where
  "args0 = \<lparr>mode = ''train'', checkpoint_dir = ''ckpt'', w_hpf = 0, lambda_reg = 1,
    lambda_sty = 2, lambda_ds = 1, lambda_cyc = 5, ds_epoch = 4, ema = True,
    num_epochs = 1, resume_epoch = 0, wandb_log = 1, save_every = 1, eval_every = 1\<rparr>"

definition live0 :: "(string \<times> obj) list" where
  "live0 = [(''generator'', Module 0), (''mapping_network'', Module 1),
            (''style_encoder'', Module 2), (''discriminator'', Module 3)]"

definition shadow0 :: "(string \<times> obj) list" where
  "shadow0 = [(''generator'', Module 10), (''mapping_network'', Module 11),
              (''style_encoder'', Module 12)]"

definition store0 :: store where
  "store0 = (\<lambda>_. [])(Module 0 := [[1, 2], [3]], Module 10 := [[0, 0], [1]])"

definition disk0 :: disk where
  "disk0 = \<lparr>files = (\<lambda>_. None), written = [], opened = []\<rparr>"

definition disk1 :: disk where
  "disk1 = \<lparr>files = (\<lambda>_. None)(''ckpt/000000_nets_ema.ckpt'' :=
              Some [(''generator'', [[7, 7], [7]]), (''mapping_network'', [[8]]),
                    (''style_encoder'', [[9]])]),
            written = [], opened = []\<rparr>"



section \<open>Properties of the loss functions\<close>

lemma adv_loss_real: "adv_loss out 1 = Inr (binary_cross_entropy_with_logits out (full_like out 1))"
  by (simp add: adv_loss_def)

lemma adv_loss_fake: "adv_loss out 0 = Inr (binary_cross_entropy_with_logits out (full_like out 0))"
  by (simp add: adv_loss_def)

lemma unpack2_Inr: "unpack2 xs = Inr (a, b) \<longleftrightarrow> xs = Some [a, b]"
  by (cases xs rule: unpack2.cases) auto

lemmas call_defs = call_discriminator_def call_generator_def call_mapping_network_def
  call_style_encoder_def call_get_heatmap_def

text \<open>
  C1. The call of the generator phase (line 136) passes the two latent vectors and leaves
  \<^verbatim>\<open>x_refs\<close> at \<^verbatim>\<open>None\<close>. Line 236 unpacks \<^verbatim>\<open>x_refs\<close> all the same, so the call raises
  TypeError for every batch, before any forward pass: it never returns a loss.
\<close>

theorem generator_phase_call_raises:
  "compute_g_loss nets args x_real y_org y_trg (Some [z_trg, z_trg2]) None masks calls =
     (Inl TypeError, calls)"
  by (simp add: compute_g_loss_def compute_g_loss_body_def)

text \<open>Hence the two phases of a batch, as the file has them, never complete.\<close>

lemma train_phases_never_returns: "train_phases env epoch batch_idx st \<noteq> Inr r"
  by (simp add: train_phases_def Let_def compute_g_loss_def compute_g_loss_body_def
      split: sum.splits prod.splits)

text \<open>
  C2. \<^verbatim>\<open>compute_d_loss\<close> needs exactly one style source. With both or neither it
  fails with AssertionError and has made no forward pass; with exactly one it passes the
  check, returns a loss, and has made its four forward passes.
\<close>

theorem compute_d_loss_style_source_check:
  "((z_trg = None) = (x_ref = None) \<longrightarrow>
      compute_d_loss nets args x_real y_org y_trg z_trg x_ref masks calls =
        (Inl AssertionError, calls)) \<and>
   ((z_trg = None) \<noteq> (x_ref = None) \<longrightarrow>
      (\<exists>loss bd. fst (compute_d_loss nets args x_real y_org y_trg z_trg x_ref masks calls) =
         Inr (loss, bd)) \<and>
      snd (compute_d_loss nets args x_real y_org y_trg z_trg x_ref masks calls) =
        calls @ [Discriminator, if z_trg = None then Style_encoder else Mapping_network,
                 Generator, Discriminator])"
  by (auto simp add: compute_d_loss_def adv_loss_real adv_loss_fake Let_def call_defs
      split: option.splits prod.splits)

theorem compute_d_loss_style_source_check_witness:
  "compute_d_loss nets0 args0 (tn [1, 2]) [0] [1] None None None [] = (Inl AssertionError, []) \<and>
   compute_d_loss nets0 args0 (tn [1, 2]) [0] [1] (Some (tn [0, 1])) (Some (tn [3, 3])) None [] =
     (Inl AssertionError, []) \<and>
   snd (compute_d_loss nets0 args0 (tn [1, 2]) [0] [1] (Some (tn [0, 1])) None None []) =
     [Discriminator, Mapping_network, Generator, Discriminator] \<and>
   snd (compute_d_loss nets0 args0 (tn [1, 2]) [0] [1] None (Some (tn [3, 3])) None []) =
     [Discriminator, Style_encoder, Generator, Discriminator]"
  using
    compute_d_loss_style_source_check [where z_trg = None and x_ref = None and nets = nets0
      and args = args0 and x_real = "tn [1, 2]" and y_org = "[0]" and y_trg = "[1]"
      and masks = None and calls = "[]"]
    compute_d_loss_style_source_check [where z_trg = "Some (tn [0, 1])"
      and x_ref = "Some (tn [3, 3])" and nets = nets0
      and args = args0 and x_real = "tn [1, 2]" and y_org = "[0]" and y_trg = "[1]"
      and masks = None and calls = "[]"]
    compute_d_loss_style_source_check [where z_trg = "Some (tn [0, 1])" and x_ref = None
      and nets = nets0
      and args = args0 and x_real = "tn [1, 2]" and y_org = "[0]" and y_trg = "[1]"
      and masks = None and calls = "[]"]
    compute_d_loss_style_source_check [where z_trg = None and x_ref = "Some (tn [3, 3])"
      and nets = nets0
      and args = args0 and x_real = "tn [1, 2]" and y_org = "[0]" and y_trg = "[1]"
      and masks = None and calls = "[]"]
  by simp

lemma map2_replicate: "map2 f xs (replicate (length xs) c) = map (\<lambda>x. f x c) xs"
  by (induction xs) simp_all

lemma map_abs_diff:
  "map (abs \<circ> (\<lambda>(x, y). x - y)) (zip xs ys) = map2 (\<lambda>a b. \<bar>a - b\<bar>) xs (ys :: real list)"
  by (simp add: comp_def case_prod_unfold)

lemma mean_of_abs_diff_nonneg: "0 \<le> mean_of (map2 (\<lambda>a b. \<bar>a - b\<bar>) xs (ys :: real list))"
  unfolding mean_of_def by (intro divide_nonneg_nonneg sum_list_nonneg) auto

text \<open>
  What the body of \<^verbatim>\<open>compute_g_loss\<close> computes when both pairs are supplied: the
  forward passes it makes and the values it binds, in terms of the networks.
\<close>

lemma compute_g_loss_body_returns:
  "\<exists>v. compute_g_loss_body nets args x_real y_org y_trg (Some [z_trg, z_trg2])
         (Some [x_ref, x_ref2]) masks calls =
        (Inr v,
         calls @ [Mapping_network, Generator, Discriminator, Style_encoder, Style_encoder,
                  Mapping_network, Generator] @ (if w_hpf args > 0 then [Fan] else []) @
                 [Style_encoder, Generator]) \<and>
    (let s_trg = mapping_network nets (vals z_trg) y_trg;
         s_trg2 = mapping_network nets (vals z_trg2) y_trg;
         x_fake = generator nets (vals x_real) s_trg masks;
         x_fake2 = generator nets (vals x_real) s_trg2 masks;
         x_rec = generator nets x_fake (style_encoder nets (vals x_real) y_org)
                   (if w_hpf args > 0 then Some (fan_get_heatmap nets x_fake) else None)
     in vals (v_s_trg v) = s_trg \<and> vals (v_s_trg2 v) = s_trg2 \<and>
        vals (v_x_fake v) = x_fake \<and> vals (v_x_fake2 v) = x_fake2 \<and>
        item (v_loss_adv v) =
          mean_of (map (\<lambda>x. max x 0 - x + ln (1 + exp (- \<bar>x\<bar>)))
                       (discriminator nets x_fake y_trg)) \<and>
        item (v_loss_sty v) =
          mean_of (map2 (\<lambda>a b. \<bar>a - b\<bar>) (style_encoder nets x_fake y_trg)
                        (style_encoder nets (vals x_ref) y_trg)) \<and>
        item (v_loss_ds v) = mean_of (map2 (\<lambda>a b. \<bar>a - b\<bar>) x_fake x_fake2) \<and>
        item (v_loss_cyc v) = mean_of (map2 (\<lambda>a b. \<bar>a - b\<bar>) x_rec (vals x_real)) \<and>
        item (v_loss v) =
          item (v_loss_adv v) + lambda_sty args * item (v_loss_sty v)
          - lambda_ds args * item (v_loss_ds v) + lambda_cyc args * item (v_loss_cyc v) \<and>
        requires_grad (v_x_fake v) \<and>
        grad_fn (v_x_fake v) = Generator # grad_fn x_real @ Mapping_network # grad_fn z_trg \<and>
        \<not> requires_grad (v_x_fake2 v) \<and> grad_fn (v_x_fake2 v) = [] \<and>
        grad_graph (v_loss_ds v) = Generator # grad_fn x_real @ Mapping_network # grad_fn z_trg)"
  by (simp add: compute_g_loss_body_def adv_loss_real Let_def call_defs
      t_mean_def t_abs_def t_sub_def detach_def binary_cross_entropy_with_logits_def
      full_like_def map2_replicate map_abs_diff l_add_def l_sub_def l_scale_def)

lemma compute_g_loss_needs_pairs:
  assumes "compute_g_loss nets args x_real y_org y_trg z_trgs x_refs masks calls = (Inr r, calls')"
  shows "\<exists>z_trg z_trg2 x_ref x_ref2.
           z_trgs = Some [z_trg, z_trg2] \<and> x_refs = Some [x_ref, x_ref2]"
proof -
  from assms obtain z_trg z_trg2 where z: "unpack2 z_trgs = Inr (z_trg, z_trg2)"
    by (auto simp: compute_g_loss_def compute_g_loss_body_def split: sum.splits)
  from assms z obtain x_ref x_ref2 where x: "unpack2 x_refs = Inr (x_ref, x_ref2)"
    by (auto simp: compute_g_loss_def compute_g_loss_body_def split: sum.splits)
  from z x show ?thesis by (simp add: unpack2_Inr)
qed

text \<open>A call with both pairs supplied returns.\<close>

lemma compute_g_loss_sample_returns:
  "\<exists>loss bd c. compute_g_loss nets0 args0 (tn [1, 2]) [0] [1] (Some [tn [0, 1], tn [2, 5]])
      (Some [tn [3, 3], tn [4, 4]]) None [] = (Inr (loss, bd), c)"
  by (simp add: compute_g_loss_def compute_g_loss_body_def adv_loss_real Let_def call_defs
      args0_def nets0_def tn_def)

text \<open>
  C7. Whenever \<^verbatim>\<open>compute_g_loss\<close> returns, both pairs were supplied, the breakdown
  holds exactly the four terms under the keys adv, sty, ds and cyc, and the total is the
  adversarial term plus \<^verbatim>\<open>lambda_sty\<close> times the style-reconstruction term minus
  \<^verbatim>\<open>lambda_ds\<close> times the diversity term plus \<^verbatim>\<open>lambda_cyc\<close> times the
  cycle-consistency term. The terms are: the logistic cross-entropy against target 1 of
  the discriminator's output on the first fake image; the mean absolute difference of the
  style encoder's codes of the fake image and of the first reference image; the mean
  absolute difference of the two fake images; the mean absolute difference of the
  reconstruction and the real image.
\<close>

theorem compute_g_loss_total:
  assumes "compute_g_loss nets args x_real y_org y_trg z_trgs x_refs masks calls =
             (Inr (loss, bd), calls')"
  shows "\<exists>z_trg z_trg2 x_ref x_ref2.
     z_trgs = Some [z_trg, z_trg2] \<and> x_refs = Some [x_ref, x_ref2] \<and>
     (let mean = (\<lambda>xs. sum_list xs / real (length xs));
          x_fake = generator nets (vals x_real) (mapping_network nets (vals z_trg) y_trg) masks;
          x_fake2 = generator nets (vals x_real) (mapping_network nets (vals z_trg2) y_trg) masks;
          adv = mean (map (\<lambda>x. max x 0 - x + ln (1 + exp (- \<bar>x\<bar>)))
                        (discriminator nets x_fake y_trg));
          sty = mean (map2 (\<lambda>a b. \<bar>a - b\<bar>) (style_encoder nets x_fake y_trg)
                           (style_encoder nets (vals x_ref) y_trg));
          ds = mean (map2 (\<lambda>a b. \<bar>a - b\<bar>) x_fake x_fake2);
          x_rec = generator nets x_fake (style_encoder nets (vals x_real) y_org)
                    (if w_hpf args > 0 then Some (fan_get_heatmap nets x_fake) else None);
          cyc = mean (map2 (\<lambda>a b. \<bar>a - b\<bar>) x_rec (vals x_real))
      in bd = [(''adv'', adv), (''sty'', sty), (''ds'', ds), (''cyc'', cyc)] \<and>
         item loss = adv + lambda_sty args * sty - lambda_ds args * ds + lambda_cyc args * cyc)"
proof -
  from compute_g_loss_needs_pairs [OF assms] obtain z_trg z_trg2 x_ref x_ref2 where
    zs: "z_trgs = Some [z_trg, z_trg2]" "x_refs = Some [x_ref, x_ref2]"
    by blast
  from compute_g_loss_body_returns [of nets args x_real y_org y_trg z_trg z_trg2 x_ref x_ref2
      masks calls]
  obtain v c where
    b: "compute_g_loss_body nets args x_real y_org y_trg (Some [z_trg, z_trg2])
          (Some [x_ref, x_ref2]) masks calls = (Inr v, c)"
    and t: "let s_trg = mapping_network nets (vals z_trg) y_trg;
         s_trg2 = mapping_network nets (vals z_trg2) y_trg;
         x_fake = generator nets (vals x_real) s_trg masks;
         x_fake2 = generator nets (vals x_real) s_trg2 masks;
         x_rec = generator nets x_fake (style_encoder nets (vals x_real) y_org)
                   (if w_hpf args > 0 then Some (fan_get_heatmap nets x_fake) else None)
     in vals (v_s_trg v) = s_trg \<and> vals (v_s_trg2 v) = s_trg2 \<and>
        vals (v_x_fake v) = x_fake \<and> vals (v_x_fake2 v) = x_fake2 \<and>
        item (v_loss_adv v) =
          mean_of (map (\<lambda>x. max x 0 - x + ln (1 + exp (- \<bar>x\<bar>)))
                       (discriminator nets x_fake y_trg)) \<and>
        item (v_loss_sty v) =
          mean_of (map2 (\<lambda>a b. \<bar>a - b\<bar>) (style_encoder nets x_fake y_trg)
                        (style_encoder nets (vals x_ref) y_trg)) \<and>
        item (v_loss_ds v) = mean_of (map2 (\<lambda>a b. \<bar>a - b\<bar>) x_fake x_fake2) \<and>
        item (v_loss_cyc v) = mean_of (map2 (\<lambda>a b. \<bar>a - b\<bar>) x_rec (vals x_real)) \<and>
        item (v_loss v) =
          item (v_loss_adv v) + lambda_sty args * item (v_loss_sty v)
          - lambda_ds args * item (v_loss_ds v) + lambda_cyc args * item (v_loss_cyc v) \<and>
        requires_grad (v_x_fake v) \<and>
        grad_fn (v_x_fake v) = Generator # grad_fn x_real @ Mapping_network # grad_fn z_trg \<and>
        \<not> requires_grad (v_x_fake2 v) \<and> grad_fn (v_x_fake2 v) = [] \<and>
        grad_graph (v_loss_ds v) = Generator # grad_fn x_real @ Mapping_network # grad_fn z_trg"
    by blast
  from assms b have l: "loss = v_loss v"
    and bd: "bd = [(''adv'', item (v_loss_adv v)), (''sty'', item (v_loss_sty v)),
                   (''ds'', item (v_loss_ds v)), (''cyc'', item (v_loss_cyc v))]"
    by (simp_all add: compute_g_loss_def zs)
  from t have "let mean = (\<lambda>xs. sum_list xs / real (length xs));
          x_fake = generator nets (vals x_real) (mapping_network nets (vals z_trg) y_trg) masks;
          x_fake2 = generator nets (vals x_real) (mapping_network nets (vals z_trg2) y_trg) masks;
          adv = mean (map (\<lambda>x. max x 0 - x + ln (1 + exp (- \<bar>x\<bar>)))
                        (discriminator nets x_fake y_trg));
          sty = mean (map2 (\<lambda>a b. \<bar>a - b\<bar>) (style_encoder nets x_fake y_trg)
                           (style_encoder nets (vals x_ref) y_trg));
          ds = mean (map2 (\<lambda>a b. \<bar>a - b\<bar>) x_fake x_fake2);
          x_rec = generator nets x_fake (style_encoder nets (vals x_real) y_org)
                    (if w_hpf args > 0 then Some (fan_get_heatmap nets x_fake) else None);
          cyc = mean (map2 (\<lambda>a b. \<bar>a - b\<bar>) x_rec (vals x_real))
      in bd = [(''adv'', adv), (''sty'', sty), (''ds'', ds), (''cyc'', cyc)] \<and>
         item loss = adv + lambda_sty args * sty - lambda_ds args * ds + lambda_cyc args * cyc"
    unfolding Let_def l bd mean_of_def by simp
  with zs show ?thesis by blast
qed

theorem compute_g_loss_total_witness:
  "\<exists>loss c.
      compute_g_loss nets0 args0 (tn [1, 2]) [0] [1] (Some [tn [0, 1], tn [2, 5]])
        (Some [tn [3, 3], tn [4, 4]]) None [] =
        (Inr (loss, [(''adv'', ln 2), (''sty'', 2), (''ds'', 2), (''cyc'', 1)]), c) \<and>
      item loss = ln 2 + 7"
proof -
  from compute_g_loss_sample_returns obtain loss bd c where
    r: "compute_g_loss nets0 args0 (tn [1, 2]) [0] [1] (Some [tn [0, 1], tn [2, 5]])
          (Some [tn [3, 3], tn [4, 4]]) None [] = (Inr (loss, bd), c)"
    by blast
  from compute_g_loss_total [OF r]
  have "bd = [(''adv'', ln 2), (''sty'', 2), (''ds'', 2), (''cyc'', 1)] \<and> item loss = ln 2 + 7"
    by (auto simp: Let_def nets0_def args0_def tn_def)
  with r show ?thesis by blast
qed

text \<open>
  C8, as amended. Whenever \<^verbatim>\<open>compute_g_loss\<close> returns, the diversity term it reports
  is the mean absolute difference of two fake images and is not negative; both are
  generated from \<^verbatim>\<open>x_real\<close> and the same masks, the first with the style code the mapping
  network gives the first latent vector and the second with the style code it gives the
  second latent vector; the second fake image is detached before the difference is
  taken, so the graph of the diversity term is the graph of the first fake image alone
  (one generator pass and one mapping-network pass).
\<close>

theorem compute_g_loss_diversity:
  assumes "compute_g_loss nets args x_real y_org y_trg z_trgs x_refs masks calls =
             (Inr (loss, bd), calls')"
  shows "\<exists>v z_trg z_trg2 x_ref x_ref2.
     compute_g_loss_body nets args x_real y_org y_trg z_trgs x_refs masks calls =
       (Inr v, calls') \<and>
     z_trgs = Some [z_trg, z_trg2] \<and> x_refs = Some [x_ref, x_ref2] \<and>
     (let s_trg = mapping_network nets (vals z_trg) y_trg;
          s_trg2 = mapping_network nets (vals z_trg2) y_trg;
          x_fake = generator nets (vals x_real) s_trg masks;
          x_fake2 = generator nets (vals x_real) s_trg2 masks;
          ds = sum_list (map2 (\<lambda>a b. \<bar>a - b\<bar>) x_fake x_fake2) /
               real (length (zip x_fake x_fake2))
      in map_of bd ''ds'' = Some ds \<and> item (v_loss_ds v) = ds \<and> 0 \<le> ds \<and>
         vals (v_s_trg v) = s_trg \<and> vals (v_s_trg2 v) = s_trg2 \<and>
         vals (v_x_fake v) = x_fake \<and> vals (v_x_fake2 v) = x_fake2 \<and>
         requires_grad (v_x_fake v) \<and>
         grad_fn (v_x_fake v) = Generator # grad_fn x_real @ Mapping_network # grad_fn z_trg \<and>
         \<not> requires_grad (v_x_fake2 v) \<and> grad_fn (v_x_fake2 v) = [] \<and>
         grad_graph (v_loss_ds v) = grad_fn (v_x_fake v))"
proof -
  from compute_g_loss_needs_pairs [OF assms] obtain z_trg z_trg2 x_ref x_ref2 where
    zs: "z_trgs = Some [z_trg, z_trg2]" "x_refs = Some [x_ref, x_ref2]"
    by blast
  from compute_g_loss_body_returns [of nets args x_real y_org y_trg z_trg z_trg2 x_ref x_ref2
      masks calls]
  obtain v c where
    b: "compute_g_loss_body nets args x_real y_org y_trg (Some [z_trg, z_trg2])
          (Some [x_ref, x_ref2]) masks calls = (Inr v, c)"
    and t: "let s_trg = mapping_network nets (vals z_trg) y_trg;
         s_trg2 = mapping_network nets (vals z_trg2) y_trg;
         x_fake = generator nets (vals x_real) s_trg masks;
         x_fake2 = generator nets (vals x_real) s_trg2 masks;
         x_rec = generator nets x_fake (style_encoder nets (vals x_real) y_org)
                   (if w_hpf args > 0 then Some (fan_get_heatmap nets x_fake) else None)
     in vals (v_s_trg v) = s_trg \<and> vals (v_s_trg2 v) = s_trg2 \<and>
        vals (v_x_fake v) = x_fake \<and> vals (v_x_fake2 v) = x_fake2 \<and>
        item (v_loss_adv v) =
          mean_of (map (\<lambda>x. max x 0 - x + ln (1 + exp (- \<bar>x\<bar>)))
                       (discriminator nets x_fake y_trg)) \<and>
        item (v_loss_sty v) =
          mean_of (map2 (\<lambda>a b. \<bar>a - b\<bar>) (style_encoder nets x_fake y_trg)
                        (style_encoder nets (vals x_ref) y_trg)) \<and>
        item (v_loss_ds v) = mean_of (map2 (\<lambda>a b. \<bar>a - b\<bar>) x_fake x_fake2) \<and>
        item (v_loss_cyc v) = mean_of (map2 (\<lambda>a b. \<bar>a - b\<bar>) x_rec (vals x_real)) \<and>
        item (v_loss v) =
          item (v_loss_adv v) + lambda_sty args * item (v_loss_sty v)
          - lambda_ds args * item (v_loss_ds v) + lambda_cyc args * item (v_loss_cyc v) \<and>
        requires_grad (v_x_fake v) \<and>
        grad_fn (v_x_fake v) = Generator # grad_fn x_real @ Mapping_network # grad_fn z_trg \<and>
        \<not> requires_grad (v_x_fake2 v) \<and> grad_fn (v_x_fake2 v) = [] \<and>
        grad_graph (v_loss_ds v) = Generator # grad_fn x_real @ Mapping_network # grad_fn z_trg"
    by blast
  from assms b have c: "c = calls'"
    and bd: "bd = [(''adv'', item (v_loss_adv v)), (''sty'', item (v_loss_sty v)),
                   (''ds'', item (v_loss_ds v)), (''cyc'', item (v_loss_cyc v))]"
    by (simp_all add: compute_g_loss_def zs)
  have nonneg: "0 \<le> mean_of (map2 (\<lambda>a b. \<bar>a - b\<bar>) xs ys)" for xs ys :: "real list"
    by (rule mean_of_abs_diff_nonneg)
  from t nonneg have "let s_trg = mapping_network nets (vals z_trg) y_trg;
          s_trg2 = mapping_network nets (vals z_trg2) y_trg;
          x_fake = generator nets (vals x_real) s_trg masks;
          x_fake2 = generator nets (vals x_real) s_trg2 masks;
          ds = sum_list (map2 (\<lambda>a b. \<bar>a - b\<bar>) x_fake x_fake2) /
               real (length (zip x_fake x_fake2))
      in map_of bd ''ds'' = Some ds \<and> item (v_loss_ds v) = ds \<and> 0 \<le> ds \<and>
         vals (v_s_trg v) = s_trg \<and> vals (v_s_trg2 v) = s_trg2 \<and>
         vals (v_x_fake v) = x_fake \<and> vals (v_x_fake2 v) = x_fake2 \<and>
         requires_grad (v_x_fake v) \<and>
         grad_fn (v_x_fake v) = Generator # grad_fn x_real @ Mapping_network # grad_fn z_trg \<and>
         \<not> requires_grad (v_x_fake2 v) \<and> grad_fn (v_x_fake2 v) = [] \<and>
         grad_graph (v_loss_ds v) = grad_fn (v_x_fake v)"
    unfolding Let_def bd mean_of_def by simp
  with b zs c show ?thesis by blast
qed

theorem compute_g_loss_diversity_witness:
  "\<exists>loss bd c (v::g_vars).
      compute_g_loss nets0 args0 (tn [1, 2]) [0] [1] (Some [tn [0, 1], tn [2, 5]])
        (Some [tn [3, 3], tn [4, 4]]) None [] = (Inr (loss, bd), c) \<and>
      compute_g_loss_body nets0 args0 (tn [1, 2]) [0] [1] (Some [tn [0, 1], tn [2, 5]])
        (Some [tn [3, 3], tn [4, 4]]) None [] = (Inr v, c) \<and>
      map_of bd ''ds'' = Some 2 \<and> item (v_loss_ds v) = 2 \<and>
      vals (v_s_trg v) = [0, 1] \<and> vals (v_s_trg2 v) = [2, 5] \<and>
      vals (v_x_fake v) = [1, 2] \<and> vals (v_x_fake2 v) = [3, 4] \<and>
      grad_fn (v_x_fake v) = [Generator, Mapping_network] \<and> grad_fn (v_x_fake2 v) = [] \<and>
      grad_graph (v_loss_ds v) = [Generator, Mapping_network]"
proof -
  from compute_g_loss_sample_returns obtain loss bd c where
    r: "compute_g_loss nets0 args0 (tn [1, 2]) [0] [1] (Some [tn [0, 1], tn [2, 5]])
          (Some [tn [3, 3], tn [4, 4]]) None [] = (Inr (loss, bd), c)"
    by blast
  from compute_g_loss_diversity [OF r] obtain v :: g_vars where
    "compute_g_loss_body nets0 args0 (tn [1, 2]) [0] [1] (Some [tn [0, 1], tn [2, 5]])
        (Some [tn [3, 3], tn [4, 4]]) None [] = (Inr v, c) \<and>
      map_of bd ''ds'' = Some 2 \<and> item (v_loss_ds v) = 2 \<and>
      vals (v_s_trg v) = [0, 1] \<and> vals (v_s_trg2 v) = [2, 5] \<and>
      vals (v_x_fake v) = [1, 2] \<and> vals (v_x_fake2 v) = [3, 4] \<and>
      grad_fn (v_x_fake v) = [Generator, Mapping_network] \<and> grad_fn (v_x_fake2 v) = [] \<and>
      grad_graph (v_loss_ds v) = [Generator, Mapping_network]"
    by (auto simp: Let_def nets0_def args0_def tn_def)
  with r show ?thesis by blast
qed

text \<open>
  C8 as stated asks for two different style codes. The function does not check that:
  with equal latent vectors the two style codes and the two fake images are equal, and
  the diversity term is zero.
\<close>

theorem equal_latents_give_equal_style_codes:
  "map_sum id
     (\<lambda>v. (vals (v_s_trg v), vals (v_s_trg2 v), vals (v_x_fake v), vals (v_x_fake2 v),
           item (v_loss_ds v)))
     (fst (compute_g_loss_body nets0 args0 (tn [1, 2]) [0] [1] (Some [tn [0, 1], tn [0, 1]])
        (Some [tn [3, 3], tn [4, 4]]) None [])) =
   Inr ([0, 1], [0, 1], [1, 2], [1, 2], 0)"
  by (simp add: compute_g_loss_body_def adv_loss_real Let_def call_defs
      t_mean_def t_abs_def t_sub_def detach_def mean_of_def nets0_def args0_def tn_def)

section \<open>The EMA update\<close>

lemma lerp_interpolates:
  "lerp live shadow beta = map2 (\<lambda>l s. beta * s + (1 - beta) * l) live shadow"
  unfolding lerp_def
  by (rule arg_cong [where f = "\<lambda>f. map2 f live shadow"]) (auto simp: fun_eq_iff algebra_simps)

lemma lerp_self: "lerp p p beta = p"
  by (induction p) (simp_all add: lerp_def)

lemma moving_average_params_nth:
  "i < length ps \<Longrightarrow> i < length pts \<Longrightarrow>
   moving_average_params ps pts beta ! i = lerp (ps ! i) (pts ! i) beta"
  by (induction ps pts beta arbitrary: i rule: moving_average_params.induct)
     (auto simp: nth_Cons')

lemma moving_average_params_length:
  "length (moving_average_params ps pts beta) = length pts"
  by (induction ps pts beta rule: moving_average_params.induct) auto

lemma moving_average_params_self: "moving_average_params ps ps beta = ps"
  by (induction ps) (simp_all add: lerp_self)

text \<open>
  C6. One call of \<^verbatim>\<open>moving_average\<close> gives every shadow parameter that has a live
  partner the value \<open>beta * shadow + (1 - beta) * live\<close>, elementwise (in exact
  arithmetic), keeps the number of shadow parameters, and changes neither the live module
  nor any object other than the shadow module. The training loop calls it with
  \<open>beta = 0.999\<close>.
\<close>

theorem moving_average_interpolates:
  "(\<forall>i. i < length (h model) \<and> i < length (h model_test) \<longrightarrow>
      moving_average h model model_test beta model_test ! i =
        map2 (\<lambda>live shadow. beta * shadow + (1 - beta) * live)
          (h model ! i) (h model_test ! i)) \<and>
   length (moving_average h model model_test beta model_test) = length (h model_test) \<and>
   moving_average h model model_test beta model = h model \<and>
   (\<forall>m. m \<noteq> model_test \<longrightarrow> moving_average h model model_test beta m = h m)"
  by (auto simp: moving_average_def moving_average_params_nth lerp_interpolates
      moving_average_params_length moving_average_params_self)

theorem moving_average_interpolates_witness:
  "moving_average store0 (Module 0) (Module 10) (999 / 1000) (Module 10) ! 0 =
     [1 / 1000, 1 / 500] \<and>
   moving_average store0 (Module 0) (Module 10) (999 / 1000) (Module 10) ! 1 = [501 / 500] \<and>
   moving_average store0 (Module 0) (Module 10) (999 / 1000) (Module 0) = [[1, 2], [3]]"
proof -
  note c = moving_average_interpolates [where h = store0 and model = "Module 0"
      and model_test = "Module 10" and beta = "999 / 1000"]
  from c [THEN conjunct1, THEN spec, of 0] c [THEN conjunct1, THEN spec, of 1] c
  show ?thesis by (simp add: store0_def)
qed

text \<open>The update of one role in the training loop (lines 155-158) is such a call.\<close>

lemma ema_update_is_moving_average:
  assumes "attr (s_nets s) name = Inr model" and "attr (s_nets_ema s) name = Inr model_test"
  shows "ema_update s name h = Inr (moving_average h model model_test (999 / 1000))"
  using assms by (simp add: ema_update_def)

section \<open>Properties of the training loop\<close>



























section \<open>Sampling\<close>

lemma format_06d_0: "format_06d 0 = ''000000''"
  by (simp add: format_06d_def digits.simps eval_nat_numeral)

text \<open>Whatever the checkpoint holds, \<^verbatim>\<open>sample\<close> hands the live ensemble on.\<close>

lemma sample_ensemble:
  "map_sum id (\<lambda>r. map snd (snd r)) (sample s sd) =
   map_sum id (\<lambda>r. [s_nets s, s_nets s]) (load_checkpoint s (resume_epoch (s_args s)) sd)"
  by (simp add: sample_def Let_def split: sum.splits)

text \<open>
  C3. \<^verbatim>\<open>Solver.sample\<close> binds its local \<^verbatim>\<open>nets_ema\<close> to \<^verbatim>\<open>self.nets\<close> (line 177), the
  live ensemble, and hands that to both rendering functions. In sample mode the one
  registered checkpoint is loaded into the modules of \<^verbatim>\<open>self.nets_ema\<close>, which are then
  not used: on the sample input the ensemble handed on is the live one, whose generator
  still has the parameters it had before loading, while the EMA generator received the
  parameters of the file.
\<close>

theorem sample_uses_live_ensemble:
  "map_sum id (\<lambda>(sd, calls). (calls, map (fst sd) [Module 0, Module 10], opened (snd sd)))
     (sample (solver_init (args0\<lparr>mode := ''sample''\<rparr>) (live0, shadow0)) (store0, disk1)) =
   Inr ([(''translate_using_reference'', live0), (''video_ref'', live0)],
        [[[1, 2], [3]], [[7, 7], [7]]], [''ckpt/000000_nets_ema.ckpt''])"
  by (simp add: sample_def load_checkpoint_def ckpt_load_def ckpt_fname_def ospj_def format_06d_0
      solver_init_def args0_def live0_def shadow0_def store0_def disk1_def Let_def)

section \<open>Checkpoints\<close>

lemma ospj_prefix: "\<exists>pre. \<forall>x. ospj dir x = pre @ x"
  by (cases "dir = []"; cases "last dir = CHR ''/''") (auto simp: ospj_def intro: exI [of _ "[]"])

lemma ema_name_not_nets: "a @ ''_nets_ema.ckpt'' \<noteq> b @ ''_nets.ckpt''"
proof
  assume "a @ ''_nets_ema.ckpt'' = b @ ''_nets.ckpt''"
  then have "rev (a @ ''_nets_ema.ckpt'') = rev (b @ ''_nets.ckpt'')" by simp
  then show False by simp
qed

lemma ema_name_not_optims: "a @ ''_nets_ema.ckpt'' \<noteq> b @ ''_optims.ckpt''"
proof
  assume "a @ ''_nets_ema.ckpt'' = b @ ''_optims.ckpt''"
  then have "rev (a @ ''_nets_ema.ckpt'') = rev (b @ ''_optims.ckpt'')" by simp
  then show False by simp
qed

lemma ema_file_never_written:
  "ospj dir (format_06d step @ ''_nets_ema.ckpt'') \<noteq> ospj dir (format_06d step' @ ''_nets.ckpt'')"
  "ospj dir (format_06d step @ ''_nets_ema.ckpt'') \<noteq> ospj dir (format_06d step' @ ''_optims.ckpt'')"
  using ospj_prefix [of dir] ema_name_not_nets ema_name_not_optims by auto

lemma save_train:
  assumes "mode args = ''train''"
  shows "save_checkpoint (solver_init args (nets, nets_ema)) step h d =
     d\<lparr>files := (files d)
          (ospj (checkpoint_dir args) (format_06d step @ ''_nets.ckpt'') :=
             Some (map (\<lambda>(name, m). (name, h m)) nets),
           ospj (checkpoint_dir args) (format_06d step @ ''_optims.ckpt'') :=
             Some (map (\<lambda>net. (net, h (Optimizer net)))
                       (filter (\<lambda>net. net \<noteq> ''fan'') (map fst nets)))),
       written := written d @
          [ospj (checkpoint_dir args) (format_06d step @ ''_nets.ckpt''),
           ospj (checkpoint_dir args) (format_06d step @ ''_optims.ckpt'')]\<rparr>"
  using assms
  by (simp add: save_checkpoint_def solver_init_def ckpt_save_def ckpt_fname_def Let_def comp_def)

lemma save_frame:
  assumes "mode args = ''train''"
    and "\<forall>m \<in> snd ` set nets \<union> range Optimizer. h2 m = h m"
  shows "save_checkpoint (solver_init args (nets, nets_ema)) step h2 d =
         save_checkpoint (solver_init args (nets, nets_ema)) step h d"
proof -
  have a: "map (\<lambda>(name, m). (name, h2 m)) nets = map (\<lambda>(name, m). (name, h m)) nets"
  proof (rule map_cong [OF refl])
    fix x assume "x \<in> set nets"
    then have "snd x \<in> snd ` set nets" by (rule imageI)
    with assms(2) have "h2 (snd x) = h (snd x)" by simp
    then show "(case x of (name, m) \<Rightarrow> (name, h2 m)) = (case x of (name, m) \<Rightarrow> (name, h m))"
      by (cases x) simp
  qed
  have b: "map (\<lambda>net. (net, h2 (Optimizer net))) xs = map (\<lambda>net. (net, h (Optimizer net))) xs"
    for xs
    using assms(2) by simp
  show ?thesis
    unfolding save_train [OF assms(1)] a b ..
qed

lemma load_eval:
  assumes "mode args \<noteq> ''train''"
  shows "load_checkpoint (solver_init args (nets, nets_ema)) step (h, d) =
     (case files d (ospj (checkpoint_dir args) (format_06d step @ ''_nets_ema.ckpt'')) of
        None \<Rightarrow> Inl LoadError
      | Some loaded \<Rightarrow>
          (case load_state_dicts nets_ema loaded h of
             Inl e \<Rightarrow> Inl e
           | Inr h' \<Rightarrow> Inr (h', d\<lparr>opened := opened d @
                [ospj (checkpoint_dir args) (format_06d step @ ''_nets_ema.ckpt'')]\<rparr>)))"
  using assms
  by (simp add: load_checkpoint_def solver_init_def ckpt_load_def ckpt_fname_def Let_def
      split: option.splits sum.splits)

text \<open>
  C10. In train mode the solver registers two checkpoints, one with the live networks and
  one with the optimizers; \<^verbatim>\<open>_save_checkpoint\<close> writes exactly the two files
  \<^verbatim>\<open>NNNNNN_nets.ckpt\<close> and \<^verbatim>\<open>NNNNNN_optims.ckpt\<close>, holding the state of the live modules
  and of the optimizers, and what it writes does not depend on the state of any other
  object, the EMA modules included. In any other mode the one registered checkpoint is
  that of the EMA ensemble, \<^verbatim>\<open>_load_checkpoint\<close> opens only \<^verbatim>\<open>NNNNNN_nets_ema.ckpt\<close>
  (and fails when it is absent), and that name is none of the names train mode writes,
  for any step.
\<close>

theorem checkpoints_hold_live_and_optims:
  "(mode args = ''train'' \<longrightarrow>
      map module_dict (s_ckptios (solver_init args (nets, nets_ema))) =
        [nets, map (\<lambda>net. (net, Optimizer net)) (filter (\<lambda>net. net \<noteq> ''fan'') (map fst nets))] \<and>
      save_checkpoint (solver_init args (nets, nets_ema)) step h d =
        d\<lparr>files := (files d)
             (ospj (checkpoint_dir args) (format_06d step @ ''_nets.ckpt'') :=
                Some (map (\<lambda>(name, m). (name, h m)) nets),
              ospj (checkpoint_dir args) (format_06d step @ ''_optims.ckpt'') :=
                Some (map (\<lambda>net. (net, h (Optimizer net)))
                          (filter (\<lambda>net. net \<noteq> ''fan'') (map fst nets)))),
          written := written d @
             [ospj (checkpoint_dir args) (format_06d step @ ''_nets.ckpt''),
              ospj (checkpoint_dir args) (format_06d step @ ''_optims.ckpt'')]\<rparr> \<and>
      ((\<forall>m \<in> snd ` set nets \<union> range Optimizer. h2 m = h m) \<longrightarrow>
         save_checkpoint (solver_init args (nets, nets_ema)) step h2 d =
         save_checkpoint (solver_init args (nets, nets_ema)) step h d)) \<and>
   (mode args \<noteq> ''train'' \<longrightarrow>
      map module_dict (s_ckptios (solver_init args (nets, nets_ema))) = [nets_ema] \<and>
      (files d (ospj (checkpoint_dir args) (format_06d step @ ''_nets_ema.ckpt'')) = None \<longrightarrow>
         load_checkpoint (solver_init args (nets, nets_ema)) step (h, d) = Inl LoadError) \<and>
      (\<forall>h' d'. load_checkpoint (solver_init args (nets, nets_ema)) step (h, d) = Inr (h', d') \<longrightarrow>
         opened d' = opened d @
           [ospj (checkpoint_dir args) (format_06d step @ ''_nets_ema.ckpt'')])) \<and>
   (\<forall>step'.
      ospj (checkpoint_dir args) (format_06d step @ ''_nets_ema.ckpt'') \<noteq>
        ospj (checkpoint_dir args) (format_06d step' @ ''_nets.ckpt'') \<and>
      ospj (checkpoint_dir args) (format_06d step @ ''_nets_ema.ckpt'') \<noteq>
        ospj (checkpoint_dir args) (format_06d step' @ ''_optims.ckpt''))"
proof (intro conjI impI allI)
  assume t: "mode args = ''train''"
  show "map module_dict (s_ckptios (solver_init args (nets, nets_ema))) =
        [nets, map (\<lambda>net. (net, Optimizer net)) (filter (\<lambda>net. net \<noteq> ''fan'') (map fst nets))]"
    using t by (simp add: solver_init_def Let_def)
  show "save_checkpoint (solver_init args (nets, nets_ema)) step h d =
        d\<lparr>files := (files d)
             (ospj (checkpoint_dir args) (format_06d step @ ''_nets.ckpt'') :=
                Some (map (\<lambda>(name, m). (name, h m)) nets),
              ospj (checkpoint_dir args) (format_06d step @ ''_optims.ckpt'') :=
                Some (map (\<lambda>net. (net, h (Optimizer net)))
                          (filter (\<lambda>net. net \<noteq> ''fan'') (map fst nets)))),
          written := written d @
             [ospj (checkpoint_dir args) (format_06d step @ ''_nets.ckpt''),
              ospj (checkpoint_dir args) (format_06d step @ ''_optims.ckpt'')]\<rparr>"
    by (rule save_train [OF t])
  assume "\<forall>m \<in> snd ` set nets \<union> range Optimizer. h2 m = h m"
  then show "save_checkpoint (solver_init args (nets, nets_ema)) step h2 d =
         save_checkpoint (solver_init args (nets, nets_ema)) step h d"
    by (rule save_frame [OF t])
next
  assume n: "mode args \<noteq> ''train''"
  show "map module_dict (s_ckptios (solver_init args (nets, nets_ema))) = [nets_ema]"
    using n by (simp add: solver_init_def Let_def)
  {
    assume "files d (ospj (checkpoint_dir args) (format_06d step @ ''_nets_ema.ckpt'')) = None"
    then show "load_checkpoint (solver_init args (nets, nets_ema)) step (h, d) = Inl LoadError"
      by (simp add: load_eval [OF n])
  }
  {
    fix h' d'
    assume "load_checkpoint (solver_init args (nets, nets_ema)) step (h, d) = Inr (h', d')"
    then show "opened d' = opened d @
           [ospj (checkpoint_dir args) (format_06d step @ ''_nets_ema.ckpt'')]"
      by (auto simp: load_eval [OF n] split: option.splits sum.splits)
  }
next
  fix step'
  show "ospj (checkpoint_dir args) (format_06d step @ ''_nets_ema.ckpt'') \<noteq>
        ospj (checkpoint_dir args) (format_06d step' @ ''_nets.ckpt'')"
    by (rule ema_file_never_written)
  show "ospj (checkpoint_dir args) (format_06d step @ ''_nets_ema.ckpt'') \<noteq>
        ospj (checkpoint_dir args) (format_06d step' @ ''_optims.ckpt'')"
    by (rule ema_file_never_written)
qed


theorem checkpoints_hold_live_and_optims_witness:
  "written (save_checkpoint (solver_init args0 (live0, shadow0)) 3 store0 disk0) =
     [''ckpt/000003_nets.ckpt'', ''ckpt/000003_optims.ckpt''] \<and>
   files (save_checkpoint (solver_init args0 (live0, shadow0)) 3 store0 disk0) ''ckpt/000003_nets.ckpt'' =
     Some [(''generator'', [[1, 2], [3]]), (''mapping_network'', []),
           (''style_encoder'', []), (''discriminator'', [])] \<and>
   map_sum id (\<lambda>sd. opened (snd sd))
     (load_checkpoint (solver_init (args0\<lparr>mode := ''sample''\<rparr>) (live0, shadow0)) 0 (store0, disk1)) =
     Inr [''ckpt/000000_nets_ema.ckpt'']"
proof -
  have f3: "format_06d 3 = ''000003''"
    by (simp add: format_06d_def digits.simps eval_nat_numeral)
  have t: "mode args0 = ''train''" by (simp add: args0_def)
  have n: "mode (args0\<lparr>mode := ''sample''\<rparr>) \<noteq> ''train''" by simp
  have l: "\<exists>h' d'. load_checkpoint (solver_init (args0\<lparr>mode := ''sample''\<rparr>) (live0, shadow0)) 0 (store0, disk1) = Inr (h', d')"
    by (simp add: load_checkpoint_def ckpt_load_def ckpt_fname_def ospj_def format_06d_0
      solver_init_def args0_def live0_def shadow0_def store0_def disk1_def Let_def)
  then obtain h' d' where
    r: "load_checkpoint (solver_init (args0\<lparr>mode := ''sample''\<rparr>) (live0, shadow0)) 0 (store0, disk1) = Inr (h', d')"
    by blast
  note c = checkpoints_hold_live_and_optims [where args = args0 and nets = live0 and nets_ema = shadow0 and step = 3
         and h = store0 and d = disk0 and ?h2.0 = store0]
  note c' = checkpoints_hold_live_and_optims [where args = "args0\<lparr>mode := ''sample''\<rparr>" and nets = live0 and nets_ema = shadow0
         and step = 0 and h = store0 and d = disk1 and ?h2.0 = store0]
  from c t have
    "save_checkpoint (solver_init args0 (live0, shadow0)) 3 store0 disk0 =
        disk0\<lparr>files := (files disk0)
             (ospj (checkpoint_dir args0) (format_06d 3 @ ''_nets.ckpt'') :=
                Some (map (\<lambda>(name, m). (name, store0 m)) live0),
              ospj (checkpoint_dir args0) (format_06d 3 @ ''_optims.ckpt'') :=
                Some (map (\<lambda>net. (net, store0 (Optimizer net)))
                          (filter (\<lambda>net. net \<noteq> ''fan'') (map fst live0)))),
          written := written disk0 @
             [ospj (checkpoint_dir args0) (format_06d 3 @ ''_nets.ckpt''),
              ospj (checkpoint_dir args0) (format_06d 3 @ ''_optims.ckpt'')]\<rparr>"
    by simp
  then have s: "written (save_checkpoint (solver_init args0 (live0, shadow0)) 3 store0 disk0) =
     [''ckpt/000003_nets.ckpt'', ''ckpt/000003_optims.ckpt'']"
    "files (save_checkpoint (solver_init args0 (live0, shadow0)) 3 store0 disk0) ''ckpt/000003_nets.ckpt'' =
     Some [(''generator'', [[1, 2], [3]]), (''mapping_network'', []),
           (''style_encoder'', []), (''discriminator'', [])]"
    by (simp_all add: f3 ospj_def args0_def disk0_def live0_def store0_def)
  from c' n r have "opened d' = opened disk1 @
           [ospj (checkpoint_dir (args0\<lparr>mode := ''sample''\<rparr>)) (format_06d 0 @ ''_nets_ema.ckpt'')]"
    by blast
  then have "opened d' = [''ckpt/000000_nets_ema.ckpt'']"
    by (simp add: format_06d_0 ospj_def args0_def disk1_def)
  with s r show ?thesis by simp
qed

end
